theory Spec2Isabelle
  imports Complex_Main
begin

section \<open>JavaScript values\<close>

text \<open>
  \<^verbatim>\<open>encoder.ts\<close> is dynamically checked code: \<^verbatim>\<open>typeCheck\<close> asks
  \<^verbatim>\<open>instanceof\<close>, \<^verbatim>\<open>typeof\<close> and truthiness of the fields it is handed, so the
  fields of a configuration are modelled as JavaScript values and not by their
  declared types.

  A number is \<^verbatim>\<open>NaN\<close>, one of the two infinities, or a finite value. Finite doubles
  are abstracted by exact rationals; the zero of either sign is \<open>Fin 0\<close>.
\<close>

datatype jsnum = NaN | PosInf | NegInf | Fin rat

datatype jsval =
    JUndefined
  | JNull
  | JBool bool
  | JNum jsnum
  | JStr string
  | JReadable nat
  | JObject "(string \<times> jsval) list"

text \<open>
  \<open>JReadable h\<close> is an instance of \<^verbatim>\<open>stream.Readable\<close> (the stream with handle
  \<open>h\<close>); \<open>JObject\<close> is any other object, given by its own enumerable properties.
\<close>

text \<open>ToBoolean: what \<^verbatim>\<open>!v\<close>, \<^verbatim>\<open>v && w\<close>, \<^verbatim>\<open>if (v)\<close> and \<^verbatim>\<open>v ? a : b\<close> test.\<close>

fun numTruthy :: "jsnum \<Rightarrow> bool" where
  "numTruthy NaN = False"
| "numTruthy PosInf = True"
| "numTruthy NegInf = True"
| "numTruthy (Fin q) = (q \<noteq> 0)"

fun truthy :: "jsval \<Rightarrow> bool" where
  "truthy JUndefined = False"
| "truthy JNull = False"
| "truthy (JBool b) = b"
| "truthy (JNum n) = numTruthy n"
| "truthy (JStr s) = (s \<noteq> [])"
| "truthy (JReadable h) = True"
| "truthy (JObject fs) = True"

fun typeof :: "jsval \<Rightarrow> string" where
  "typeof JUndefined = ''undefined''"
| "typeof JNull = ''object''"
| "typeof (JBool b) = ''boolean''"
| "typeof (JNum n) = ''number''"
| "typeof (JStr s) = ''string''"
| "typeof (JReadable h) = ''object''"
| "typeof (JObject fs) = ''object''"

fun instanceofReadable :: "jsval \<Rightarrow> bool" where
  "instanceofReadable (JReadable h) = True"
| "instanceofReadable v = False"

text \<open>
  Reading a property \<^verbatim>\<open>v.k\<close>. On \<^verbatim>\<open>undefined\<close> and \<^verbatim>\<open>null\<close> the read throws a
  TypeError: \<open>nullish\<close> is tested where the source reads without a guard. On every other
  value a property that is not there reads as \<^verbatim>\<open>undefined\<close>.
\<close>

fun nullish :: "jsval \<Rightarrow> bool" where
  "nullish JUndefined = True"
| "nullish JNull = True"
| "nullish v = False"

fun getProp :: "jsval \<Rightarrow> string \<Rightarrow> jsval" where
  "getProp (JObject fs) k = (case map_of fs k of Some v \<Rightarrow> v | None \<Rightarrow> JUndefined)"
| "getProp v k = JUndefined"

subsection \<open>Conversion to string\<close>

text \<open>
  \<^verbatim>\<open>"..." + v\<close> converts \<open>v\<close> with ToString. A number prints as the shortest decimal
  that reads back as the same double. For a whole number up to \<open>2\<^sup>5\<^sup>3\<close> in size, where
  every whole number is a double of its own, that is its decimal digits. For every
  other finite number (a fraction, or a whole number above \<open>2\<^sup>5\<^sup>3\<close>, where the digits
  are cut short and filled up with zeros) it depends on the double behind the number:
  that rendering is the parameter \<open>render\<close>.
\<close>

definition digitChar :: "nat \<Rightarrow> char" where
  "digitChar n = ''0123456789'' ! n"

function decimal :: "nat \<Rightarrow> string" where
  "decimal n = (if n < 10 then [digitChar n] else decimal (n div 10) @ [digitChar (n mod 10)])"
  by pat_completeness auto
termination
  by (relation "measure (\<lambda>n. n)") auto

declare decimal.simps [simp del]

definition isWhole :: "rat \<Rightarrow> bool" where
  "isWhole q = (q = of_int \<lfloor>q\<rfloor>)"

fun numberToString :: "(rat \<Rightarrow> string) \<Rightarrow> jsnum \<Rightarrow> string" where
  "numberToString render NaN = ''NaN''"
| "numberToString render PosInf = ''Infinity''"
| "numberToString render NegInf = ''-Infinity''"
| "numberToString render (Fin q) =
     (if isWhole q \<and> \<bar>q\<bar> \<le> 9007199254740992
      then (if q < 0 then ''-'' else '''') @ decimal (nat \<bar>\<lfloor>q\<rfloor>\<bar>)
      else render q)"

fun toString :: "(rat \<Rightarrow> string) \<Rightarrow> jsval \<Rightarrow> string" where
  "toString render JUndefined = ''undefined''"
| "toString render JNull = ''null''"
| "toString render (JBool b) = (if b then ''true'' else ''false'')"
| "toString render (JNum n) = numberToString render n"
| "toString render (JStr s) = s"
| "toString render (JReadable h) = ''[object Object]''"
| "toString render (JObject fs) = ''[object Object]''"

text \<open>
  The conversion of an object calls its \<^verbatim>\<open>valueOf\<close> and then its \<^verbatim>\<open>toString\<close>. An
  object that has a \<^verbatim>\<open>toString\<close> property of its own has one that cannot be called (a
  property here is never a function), and its conversion throws a TypeError; every
  other value is converted as \<open>toString\<close> says.
\<close>

fun stringable :: "jsval \<Rightarrow> bool" where
  "stringable (JObject fs) = (map_of fs ''toString'' = None)"
| "stringable v = True"

subsection \<open>Rounding to two decimals\<close>

text \<open>
  \<^verbatim>\<open>parseFloat(x.toFixed(2))\<close>. \<^verbatim>\<open>toFixed(2)\<close> picks the integer \<open>n\<close> with \<open>n / 100\<close>
  nearest to \<open>x\<close>, the larger one on a tie, after taking the sign off; \<^verbatim>\<open>parseFloat\<close>
  reads the digits back. \<^verbatim>\<open>NaN\<close> and the infinities print as their names and read back
  as themselves.
\<close>

definition toFixed2 :: "rat \<Rightarrow> rat" where
  "toFixed2 q =
     (if q < 0 then - (of_int \<lfloor>(- q) * 100 + 1 / 2\<rfloor> / 100)
      else of_int \<lfloor>q * 100 + 1 / 2\<rfloor> / 100)"

fun parseFloat_toFixed2 :: "jsnum \<Rightarrow> jsnum" where
  "parseFloat_toFixed2 NaN = NaN"
| "parseFloat_toFixed2 PosInf = PosInf"
| "parseFloat_toFixed2 NegInf = NegInf"
| "parseFloat_toFixed2 (Fin q) = Fin (toFixed2 q)"

section \<open>The job and what it does\<close>

text \<open>
  The configuration object, as \<^verbatim>\<open>typeCheck\<close> and \<^verbatim>\<open>encoder\<close> destructure it. A
  property the caller left out is \<open>JUndefined\<close>.
\<close>

record config =
  frameStream :: jsval
  output' :: jsval
  backgroundVideo :: jsval
  fps :: jsval
  silent :: jsval

text \<open>
  What the host gives the job: \<^verbatim>\<open>path.dirname\<close> on a string; for a directory, whether
  \<^verbatim>\<open>fs.existsSync\<close> finds it, \<^verbatim>\<open>fs.mkdirSync\<close> creates it, or \<^verbatim>\<open>fs.mkdirSync\<close> throws; the
  handle of the write stream \<^verbatim>\<open>fs.createWriteStream\<close> returns; which streams are
  readable (a stream that was destroyed or has ended is not); and the engine's
  rendering of the numbers that do not print as plain digits.
\<close>

datatype dirStatus = DirExists | DirCreatable | DirThrows

record host =
  dirname :: "string \<Rightarrow> string"
  outDir :: "string \<Rightarrow> dirStatus"
  sink :: nat
  readable :: "nat \<Rightarrow> bool"
  numberRepr :: "rat \<Rightarrow> string"

text \<open>
  The value a promise is rejected with: \<^verbatim>\<open>new Error(message)\<close>, or the TypeError the
  engine throws on a property read of \<^verbatim>\<open>undefined\<close> or \<^verbatim>\<open>null\<close>.
\<close>

datatype reason = Error string | TypeError

datatype encodeResult = EncodeResult (path: jsval) (stream: nat)

text \<open>
  An element of the filter list handed to \<^verbatim>\<open>complexFilter\<close>: a filter string, or an object
  with \<^verbatim>\<open>filter\<close>, \<^verbatim>\<open>options\<close>, \<^verbatim>\<open>inputs\<close> and \<^verbatim>\<open>outputs\<close>.
\<close>

datatype filterSpec =
    FilterString string
  | FilterObject string "(string \<times> string) list" string string

text \<open>
  Every call the job makes on something outside itself, in the order it makes them:
  the two callbacks of the promise, the console, the file system, the
  \<^verbatim>\<open>fluent-ffmpeg\<close> command and the progress bar.
\<close>

datatype effect =
    Reject reason
  | Resolve encodeResult
  | ConsoleLog "string list"
  | MkdirSync string
  | CreateWriteStream jsval nat
  | Ffmpeg
  | Input jsval
  | InputFPS jsval
  | OutputOptions "string list"
  | Fps jsval
  | ComplexFilter "filterSpec list" string
  | Output nat
  | SingleBar
  | On string
  | Run
  | BarStart nat nat
  | BarStop
  | BarUpdate jsnum

subsection \<open>typeCheck\<close>

text \<open>
  Four checks, one after the other; a check that fails calls \<^verbatim>\<open>reject\<close> and the
  function goes on to the next check. The result is the list of calls it made.
\<close>

definition typeCheck :: "config \<Rightarrow> effect list" where
  "typeCheck cfg =
     (if \<not> instanceofReadable (frameStream cfg)
      then [Reject (Error (''frameStream should be in type Readable. You provided ''
                            @ typeof (frameStream cfg)))]
      else [])
     @ (if \<not> (typeof (output' cfg) = ''string'')
        then [Reject (Error (''output should be a string. You provided ''
                              @ typeof (output' cfg)))]
        else [])
     @ (if \<not> (truthy (fps cfg) \<and> truthy (getProp (fps cfg) ''input'')
                \<and> truthy (getProp (fps cfg) ''output''))
        then [Reject (Error ''fps should be an object with input and output properties'')]
        else [])
     @ (if truthy (backgroundVideo cfg)
        then (if \<not> (truthy (getProp (backgroundVideo cfg) ''inSeconds'')
                      \<and> truthy (getProp (backgroundVideo cfg) ''outSeconds'')
                      \<and> truthy (getProp (backgroundVideo cfg) ''videoPath''))
              then [Reject (Error ''backgroundVideo property is not correctly set'')]
              else [])
        else [])"

subsection \<open>createDir\<close>

text \<open>
  The \<^verbatim>\<open>try\<close> block takes the directory of \<^verbatim>\<open>output\<close> and creates it, with
  \<^verbatim>\<open>recursive: true\<close>, when it is not there. The block throws when \<^verbatim>\<open>output\<close> is not a
  string (\<^verbatim>\<open>path.dirname\<close> refuses it) or when \<^verbatim>\<open>fs.mkdirSync\<close> throws. The \<^verbatim>\<open>catch\<close> block
  logs unless \<^verbatim>\<open>silent\<close>, calls \<^verbatim>\<open>reject\<close>, and returns normally.
\<close>

definition createDirCatch :: "jsval \<Rightarrow> effect list" where
  "createDirCatch silent' =
     (if \<not> truthy silent' then [ConsoleLog [''Could not create/access output directory'']]
      else [])
     @ [Reject (Error ''Cannot create/access output directory'')]"

definition createDir :: "host \<Rightarrow> jsval \<Rightarrow> jsval \<Rightarrow> effect list" where
  "createDir h silent' out =
     (case out of
        JStr p \<Rightarrow>
          (case outDir h (dirname h p) of
             DirExists \<Rightarrow> []
           | DirCreatable \<Rightarrow> [MkdirSync (dirname h p)]
           | DirThrows \<Rightarrow> createDirCatch silent')
      | _ \<Rightarrow> createDirCatch silent')"

subsection \<open>encoder\<close>

text \<open>\<^verbatim>\<open>silent = true\<close> in the destructuring: the default stands in for \<^verbatim>\<open>undefined\<close> only.\<close>

definition silentOf :: "config \<Rightarrow> jsval" where
  "silentOf cfg = (if silent cfg = JUndefined then JBool True else silent cfg)"

text \<open>
  The body of the promise runs its statements in order, and a statement that throws
  ends it: the promise constructor hands what was thrown to \<^verbatim>\<open>reject\<close>. A statement
  is given as the calls it makes, or as what it throws. \<open>runBody\<close> returns the calls
  made and whether the last statement was reached.
\<close>

fun runBody :: "(reason + effect list) list \<Rightarrow> effect list \<times> bool" where
  "runBody [] = ([], True)"
| "runBody (Inl e # rest) = ([Reject e], False)"
| "runBody (Inr calls # rest) = (calls @ fst (runBody rest), snd (runBody rest))"

text \<open>
  The argument checks of the two library calls that can end the body.
  \<^verbatim>\<open>fs.createWriteStream\<close> throws a TypeError on a path that is not a string.
  \<^verbatim>\<open>command.input\<close> takes a string as it is; of anything else it asks
  \<^verbatim>\<open>'readable' in source\<close>, which throws a TypeError on a value that is not an object,
  refuses a source that is not readable with "Invalid input" and a second stream with
  "Only one input stream is supported", and calls \<^verbatim>\<open>source.pause()\<close>, which an object
  that is no stream does not have. \<open>hasInputStream\<close> says whether an earlier input
  was a stream.
\<close>

fun createWriteStream :: "host \<Rightarrow> jsval \<Rightarrow> reason + effect list" where
  "createWriteStream h (JStr p) = Inr [CreateWriteStream (JStr p) (sink h)]"
| "createWriteStream h v = Inl TypeError"

fun commandInput :: "host \<Rightarrow> bool \<Rightarrow> jsval \<Rightarrow> reason + effect list" where
  "commandInput h hasInputStream (JStr p) = Inr [Input (JStr p)]"
| "commandInput h hasInputStream (JReadable s) =
     (if \<not> readable h s then Inl (Error ''Invalid input'')
      else if hasInputStream then Inl (Error ''Only one input stream is supported'')
      else Inr [Input (JReadable s)])"
| "commandInput h hasInputStream (JObject fs) =
     (if \<not> truthy (getProp (JObject fs) ''readable'') then Inl (Error ''Invalid input'')
      else if hasInputStream then Inl (Error ''Only one input stream is supported'')
      else Inl TypeError)"
| "commandInput h hasInputStream v = Inl TypeError"

fun isStreamInput :: "host \<Rightarrow> jsval \<Rightarrow> bool" where
  "isStreamInput h (JReadable s) = readable h s"
| "isStreamInput h v = False"

text \<open>
  The body of \<^verbatim>\<open>encoder\<close>, statement by statement, up to \<^verbatim>\<open>command.run()\<close>. Besides
  the two library calls above, a statement throws where it reads \<^verbatim>\<open>fps.input\<close> of an
  \<^verbatim>\<open>fps\<close> that is \<^verbatim>\<open>undefined\<close> or \<^verbatim>\<open>null\<close> (\<^verbatim>\<open>command.input(frameStream)\<close> has been called
  by then), and where it builds the filter strings from seconds that do not convert to
  a string. The other calls on the command, on the write stream that was just opened
  and on the progress bar return.
\<close>

definition encoder :: "host \<Rightarrow> config \<Rightarrow> effect list \<times> bool" where
  "encoder h cfg =
     (let bg = backgroundVideo cfg in
      runBody
        [Inr (typeCheck cfg),
         Inr (createDir h (silentOf cfg) (output' cfg)),
         createWriteStream h (output' cfg),
         Inr [Ffmpeg],
         (if truthy bg then commandInput h False (getProp bg ''videoPath'') else Inr []),
         commandInput h (truthy bg \<and> isStreamInput h (getProp bg ''videoPath''))
           (frameStream cfg),
         (if nullish (fps cfg) then Inl TypeError
          else Inr [InputFPS (getProp (fps cfg) ''input'')]),
         Inr [OutputOptions [''-preset veryfast'', ''-crf 24'', ''-f mp4'',
                             ''-movflags frag_keyframe+empty_moov'', ''-pix_fmt yuv420p'']],
         Inr [Fps (getProp (fps cfg) ''output'')],
         (if truthy bg
          then (if stringable (getProp bg ''inSeconds'') \<and> stringable (getProp bg ''outSeconds'')
                then Inr [ComplexFilter
                            [FilterString (''[1:v]setpts=PTS+''
                                           @ toString (numberRepr h) (getProp bg ''inSeconds'')
                                           @ ''/TB[out]''),
                             FilterObject ''overlay''
                               [(''enable'', ''between(t,''
                                   @ toString (numberRepr h) (getProp bg ''inSeconds'')
                                   @ '',''
                                   @ toString (numberRepr h) (getProp bg ''outSeconds'')
                                   @ '')''),
                                (''x'', ''0''),
                                (''y'', ''0'')]
                               ''[0:v][out]''
                               ''tmp'']
                            ''tmp'']
                else Inl TypeError)
          else Inr []),
         Inr [Output (sink h)],
         Inr [SingleBar],
         Inr [On ''start'', On ''end'', On ''progress'', On ''error''],
         Inr [Run]])"

subsection \<open>The listeners\<close>

text \<open>
  The signals of the external process. A progress signal carries \<^verbatim>\<open>percent\<close>, a number
  when it is there (the source reads it \<^verbatim>\<open>as number\<close>); an error signal carries its
  \<^verbatim>\<open>message\<close>.
\<close>

datatype event = Start string | End | Progress "jsnum option" | Failure string

text \<open>
  The four listeners close over \<^verbatim>\<open>silent\<close>, \<^verbatim>\<open>output\<close> and \<^verbatim>\<open>outputStream\<close>.
\<close>

fun listener :: "jsval \<Rightarrow> jsval \<Rightarrow> nat \<Rightarrow> event \<Rightarrow> effect list" where
  "listener silent' out outputStream (Start commandLine) =
     (if \<not> truthy silent'
      then [ConsoleLog [''Spawned Ffmpeg with command: '' @ commandLine]] else [])
     @ (if \<not> truthy silent' then [BarStart 100 0] else [])"
| "listener silent' out outputStream End =
     (if \<not> truthy silent' then [BarStop, ConsoleLog [''Processing complete...'']] else [])
     @ [Resolve (EncodeResult out outputStream)]"
| "listener silent' out outputStream (Progress percent) =
     (if \<not> truthy silent'
      then [BarUpdate
              (case percent of
                 None \<Rightarrow> Fin 0
               | Some p \<Rightarrow> if numTruthy p then parseFloat_toFixed2 p else Fin 0)]
      else [])"
| "listener silent' out outputStream (Failure message) =
     (if \<not> truthy silent'
      then [ConsoleLog [''An error occured while processing,'', message]] else [])
     @ [Reject (Error message)]"

text \<open>
  A whole job: the body of the promise, then one listener call per signal of the
  process, when \<^verbatim>\<open>run\<close> was reached.
\<close>

definition job :: "host \<Rightarrow> config \<Rightarrow> event list \<Rightarrow> effect list" where
  "job h cfg evs =
     fst (encoder h cfg)
     @ (if snd (encoder h cfg)
        then concat (map (listener (silentOf cfg) (output' cfg) (sink h)) evs)
        else [])"

subsection \<open>The promise\<close>

text \<open>
  A promise settles on the first call of \<^verbatim>\<open>resolve\<close> or \<^verbatim>\<open>reject\<close>; later calls of
  either leave it as it is.
\<close>

datatype promise = Pending | Fulfilled encodeResult | Rejected reason

fun settle :: "promise \<Rightarrow> effect \<Rightarrow> promise" where
  "settle Pending (Resolve r) = Fulfilled r"
| "settle Pending (Reject e) = Rejected e"
| "settle p x = p"

definition promiseAfter :: "effect list \<Rightarrow> promise" where
  "promiseAfter tr = foldl settle Pending tr"

text \<open>Readings of a trace.\<close>

fun isReject :: "effect \<Rightarrow> bool" where
  "isReject (Reject e) = True"
| "isReject x = False"

fun isResolve :: "effect \<Rightarrow> bool" where
  "isResolve (Resolve r) = True"
| "isResolve x = False"

fun isInput :: "effect \<Rightarrow> bool" where
  "isInput (Input v) = True"
| "isInput x = False"

fun isComplexFilter :: "effect \<Rightarrow> bool" where
  "isComplexFilter (ComplexFilter fs out) = True"
| "isComplexFilter x = False"

fun isBarUpdate :: "effect \<Rightarrow> bool" where
  "isBarUpdate (BarUpdate v) = True"
| "isBarUpdate x = False"

text \<open>The signals that end a run of the process.\<close>

fun isTerminal :: "event \<Rightarrow> bool" where
  "isTerminal End = True"
| "isTerminal (Failure m) = True"
| "isTerminal e = False"

text \<open>A percentage: a finite number from 0 to 100.\<close>

fun inPercentRange :: "jsnum \<Rightarrow> bool" where
  "inPercentRange (Fin q) = (0 \<le> q \<and> q \<le> 100)"
| "inPercentRange n = False"

subsection \<open>Sample jobs\<close>

text \<open>
  A host whose output directory \<^verbatim>\<open>out\<close> is there, and one where creating it throws; a
  configuration that passes every check of \<^verbatim>\<open>typeCheck\<close>; and the frame rates and
  background videos put into it below.
\<close>

abbreviation hostReady :: host where
  "hostReady \<equiv> \<lparr>dirname = (\<lambda>p. ''out''), outDir = (\<lambda>d. DirExists), sink = 7,
                  readable = (\<lambda>s. True), numberRepr = (\<lambda>q. ''?'')\<rparr>"

abbreviation hostNoDir :: host where
  "hostNoDir \<equiv> \<lparr>dirname = (\<lambda>p. ''out''), outDir = (\<lambda>d. DirThrows), sink = 7,
                  readable = (\<lambda>s. True), numberRepr = (\<lambda>q. ''?'')\<rparr>"

abbreviation fps30 :: jsval where
  "fps30 \<equiv> JObject [(''input'', JNum (Fin 30)), (''output'', JNum (Fin 30))]"

abbreviation fpsZero :: jsval where
  "fpsZero \<equiv> JObject [(''input'', JNum (Fin 0)), (''output'', JNum (Fin 30))]"

abbreviation fpsNegative :: jsval where
  "fpsNegative \<equiv> JObject [(''input'', JNum (Fin (- 30))), (''output'', JNum (Fin 30))]"

abbreviation cfgPlain :: config where
  "cfgPlain \<equiv> \<lparr>frameStream = JReadable 1, output' = JStr ''out/v.mp4'',
      backgroundVideo = JUndefined, fps = fps30, silent = JUndefined\<rparr>"

abbreviation bgWindow :: jsval where
  "bgWindow \<equiv> JObject [(''videoPath'', JStr ''bg.mp4''), (''inSeconds'', JNum (Fin 2)),
                       (''outSeconds'', JNum (Fin 5))]"

abbreviation bgZero :: jsval where
  "bgZero \<equiv> JObject [(''videoPath'', JStr ''bg.mp4''), (''inSeconds'', JNum (Fin 0)),
                     (''outSeconds'', JNum (Fin 5))]"

abbreviation bgBackwards :: jsval where
  "bgBackwards \<equiv> JObject [(''videoPath'', JStr ''bg.mp4''), (''inSeconds'', JNum (Fin 5)),
                          (''outSeconds'', JNum (Fin 2))]"

section \<open>Properties\<close>

subsection \<open>Auxiliary facts\<close>

text \<open>A settled promise stays as it is.\<close>

lemma settle_settled: "p \<noteq> Pending \<Longrightarrow> settle p x = p"
  by (cases p; cases x; simp)

lemma settle_Reject: "settle p (Reject e) \<noteq> Pending"
  by (cases p) simp_all

lemma settled_stays: "p \<noteq> Pending \<Longrightarrow> foldl settle p tr = p"
  by (induction tr) (simp_all add: settle_settled)

lemma promiseAfter_append:
  "promiseAfter (xs @ ys) =
     (if promiseAfter xs = Pending then promiseAfter ys else promiseAfter xs)"
  by (simp add: promiseAfter_def settled_stays)

lemma job_append:
  "job h cfg (xs @ ys) =
     job h cfg xs
     @ (if snd (encoder h cfg)
        then concat (map (listener (silentOf cfg) (output' cfg) (sink h)) ys) else [])"
  by (simp add: job_def)

text \<open>
  A body that did not reach \<^verbatim>\<open>run\<close> has handed what was thrown to \<^verbatim>\<open>reject\<close>, and a body
  that reached it has made the calls of all its statements.
\<close>

lemma runBody_stopped:
  "\<not> snd (runBody ss) \<Longrightarrow> \<exists>tr e. fst (runBody ss) = tr @ [Reject e]"
proof (induction ss rule: runBody.induct)
  case 1
  then show ?case
    by simp
next
  case (2 e rest)
  show ?case
    by simp
next
  case (3 calls rest)
  then obtain tr e where "fst (runBody rest) = tr @ [Reject e]"
    by auto
  then have "fst (runBody (Inr calls # rest)) = (calls @ tr) @ [Reject e]"
    by simp
  then show ?case
    by blast
qed

lemma runBody_done:
  "snd (runBody ss) \<Longrightarrow>
     fst (runBody ss) = concat (map (\<lambda>st. case st of Inl e \<Rightarrow> [] | Inr calls \<Rightarrow> calls) ss)"
  by (induction ss rule: runBody.induct) simp_all

text \<open>A pending promise means the process was started.\<close>

lemma not_launched_rejected:
  "\<not> snd (encoder h cfg) \<Longrightarrow> promiseAfter (job h cfg evs) \<noteq> Pending"
proof -
  assume stopped: "\<not> snd (encoder h cfg)"
  then have "\<exists>tr e. fst (encoder h cfg) = tr @ [Reject e]"
    unfolding encoder_def Let_def by (rule runBody_stopped)
  with stopped obtain tr e where "job h cfg evs = tr @ [Reject e]"
    by (auto simp: job_def)
  then show ?thesis
    by (simp add: promiseAfter_def settle_Reject)
qed

lemma pending_launched: "promiseAfter (job h cfg evs) = Pending \<Longrightarrow> snd (encoder h cfg)"
  using not_launched_rejected by blast

lemma promiseAfter_End:
  "promiseAfter (listener s out st End) = Fulfilled (EncodeResult out st)"
  by (simp add: promiseAfter_def)

lemma promiseAfter_Failure:
  "promiseAfter (listener s out st (Failure m)) = Rejected (Error m)"
  by (simp add: promiseAfter_def)

lemma sink_opened:
  "snd (encoder h cfg) \<Longrightarrow>
     CreateWriteStream (output' cfg) (sink h) \<in> set (fst (encoder h cfg))"
proof -
  assume launched: "snd (encoder h cfg)"
  then obtain p where p: "output' cfg = JStr p"
    unfolding encoder_def Let_def by (cases "output' cfg") simp_all
  show ?thesis
    unfolding encoder_def Let_def by (simp add: p)
qed

text \<open>
  A job that passed every check, has its directory and reached \<^verbatim>\<open>run\<close> is pending
  until the process signals its end or a failure.
\<close>

lemma quiet_pending:
  "list_all (\<lambda>x. \<not> isReject x \<and> \<not> isResolve x) tr \<Longrightarrow> promiseAfter tr = Pending"
proof (induction tr)
  case Nil
  then show ?case
    by (simp add: promiseAfter_def)
next
  case (Cons x tr)
  then have "settle Pending x = Pending"
    by (cases x) simp_all
  with Cons show ?case
    by (simp add: promiseAfter_def)
qed

lemma listener_quiet:
  "\<not> isTerminal e \<Longrightarrow>
     list_all (\<lambda>x. \<not> isReject x \<and> \<not> isResolve x) (listener s out st e)"
  by (cases e) simp_all

lemma statement_quiet:
  "list_all (\<lambda>x. \<not> isReject x \<and> \<not> isResolve x)
     (case createWriteStream h v of Inl e \<Rightarrow> [] | Inr calls \<Rightarrow> calls)"
  "list_all (\<lambda>x. \<not> isReject x \<and> \<not> isResolve x)
     (case commandInput h b v of Inl e \<Rightarrow> [] | Inr calls \<Rightarrow> calls)"
  by (cases v; simp)+

lemma running_pending:
  assumes "typeCheck cfg = []"
      and "output' cfg = JStr p"
      and "outDir h (dirname h p) \<noteq> DirThrows"
      and "snd (encoder h cfg)"
      and "list_all (\<lambda>e. \<not> isTerminal e) pre"
  shows "promiseAfter (job h cfg pre) = Pending"
proof -
  have dir: "list_all (\<lambda>x. \<not> isReject x \<and> \<not> isResolve x)
               (createDir h (silentOf cfg) (output' cfg))"
    using assms(2,3) by (cases "outDir h (dirname h p)") (simp_all add: createDir_def)
  note all_calls = runBody_done [OF assms(4) [unfolded encoder_def Let_def]]
  have body: "list_all (\<lambda>x. \<not> isReject x \<and> \<not> isResolve x) (fst (encoder h cfg))"
    unfolding encoder_def Let_def all_calls
    using dir by (simp add: assms(1) statement_quiet)
  have "list_all (\<lambda>x. \<not> isReject x \<and> \<not> isResolve x) (concat (map (listener s out st) pre))"
    for s out st
    using assms(5) by (induction pre) (simp_all add: listener_quiet del: listener.simps)
  with body have "list_all (\<lambda>x. \<not> isReject x \<and> \<not> isResolve x) (job h cfg pre)"
    by (simp add: job_def)
  then show ?thesis
    by (rule quiet_pending)
qed

text \<open>Numbers of one digit, and the two that the window from 2 to 5 prints.\<close>

lemma decimal_digit: "n < 10 \<Longrightarrow> decimal n = [digitChar n]"
  by (simp add: decimal.simps)

lemma numberToString_2: "numberToString r (Fin 2) = ''2''"
  by (simp add: isWhole_def decimal_digit digitChar_def)

lemma numberToString_5: "numberToString r (Fin 5) = ''5''"
  by (simp add: isWhole_def decimal_digit digitChar_def)

text \<open>A property that reads as something is a property of a truthy value.\<close>

lemma getProp_truthy: "getProp v k \<noteq> JUndefined \<Longrightarrow> truthy v"
  by (cases v) simp_all

text \<open>
  Rounding to two decimals lands on a multiple of a hundredth at most half a
  hundredth away, and keeps a percentage a percentage.
\<close>

lemma toFixed2_near:
  "\<exists>n::int. toFixed2 q = of_int n / 100 \<and> \<bar>of_int n / 100 - q\<bar> \<le> 1 / 200"
proof (cases "q < 0")
  case True
  define n where "n = \<lfloor>(- q) * 100 + 1 / 2\<rfloor>"
  have "of_int n \<le> (- q) * 100 + 1 / 2" "(- q) * 100 + 1 / 2 < of_int n + 1"
    unfolding n_def by linarith+
  then have "of_int (- n) / 100 - q \<le> 1 / 200 \<and> - (of_int (- n) / 100 - q) \<le> 1 / 200"
    by (simp add: field_simps)
  then have "\<bar>of_int (- n) / 100 - q\<bar> \<le> 1 / 200"
    by (simp only: abs_le_iff)
  moreover have "toFixed2 q = of_int (- n) / 100"
    using True by (simp add: toFixed2_def n_def)
  ultimately show ?thesis
    by blast
next
  case False
  define n where "n = \<lfloor>q * 100 + 1 / 2\<rfloor>"
  have "of_int n \<le> q * 100 + 1 / 2" "q * 100 + 1 / 2 < of_int n + 1"
    unfolding n_def by linarith+
  then have "of_int n / 100 - q \<le> 1 / 200 \<and> - (of_int n / 100 - q) \<le> 1 / 200"
    by (simp add: field_simps)
  then have "\<bar>of_int n / 100 - q\<bar> \<le> 1 / 200"
    by (simp only: abs_le_iff)
  moreover have "toFixed2 q = of_int n / 100"
    using False by (simp add: toFixed2_def n_def)
  ultimately show ?thesis
    by blast
qed

lemma toFixed2_range: "0 \<le> q \<Longrightarrow> q \<le> 100 \<Longrightarrow> 0 \<le> toFixed2 q \<and> toFixed2 q \<le> 100"
proof -
  assume q: "0 \<le> q" "q \<le> 100"
  define n where "n = \<lfloor>q * 100 + 1 / 2\<rfloor>"
  have "0 \<le> n"
    unfolding n_def using q by (simp add: le_floor_iff)
  moreover have "n \<le> 10000"
    unfolding n_def using q by (simp add: floor_le_iff)
  moreover have "toFixed2 q = of_int n / 100"
    using q by (simp add: toFixed2_def n_def)
  ultimately show ?thesis
    by simp
qed

text \<open>Rounding does not bring a percent from outside the range back into it.\<close>

lemma toFixed2_below: "q \<le> - (1 / 100) \<Longrightarrow> toFixed2 q < 0"
proof -
  assume q: "q \<le> - (1 / 100)"
  define n where "n = \<lfloor>(- q) * 100 + 1 / 2\<rfloor>"
  have "1 \<le> n"
    unfolding n_def using q by (simp add: le_floor_iff)
  moreover have "toFixed2 q = - (of_int n / 100)"
    using q by (simp add: toFixed2_def n_def)
  ultimately show ?thesis
    by simp
qed

lemma toFixed2_above: "100 + 1 / 100 \<le> q \<Longrightarrow> 100 < toFixed2 q"
proof -
  assume q: "100 + 1 / 100 \<le> q"
  define n where "n = \<lfloor>q * 100 + 1 / 2\<rfloor>"
  have "10001 \<le> n"
    unfolding n_def using q by (simp add: le_floor_iff)
  moreover have "toFixed2 q = of_int n / 100"
    using q by (simp add: toFixed2_def n_def)
  ultimately show ?thesis
    by simp
qed

subsection \<open>C1: a configuration that fails validation\<close>

text \<open>
  C1. A configuration that fails a check of the validator should have its promise
  rejected with an error naming the field, with no output sink opened and no process
  started. At a configuration that is valid but for \<^verbatim>\<open>backgroundVideo.inSeconds = 0\<close>,
  \<^verbatim>\<open>typeCheck\<close> calls \<^verbatim>\<open>reject\<close> with the error naming \<^verbatim>\<open>backgroundVideo\<close>, and the body
  goes on: it opens the write stream, builds the command with its filter graph and
  runs it. The promise stays rejected when the process completes.
\<close>

theorem C1_rejected_config_still_encodes:
  "encoder hostReady (cfgPlain\<lparr>backgroundVideo := bgZero\<rparr>) =
     ([Reject (Error ''backgroundVideo property is not correctly set''),
       CreateWriteStream (JStr ''out/v.mp4'') 7, Ffmpeg,
       Input (JStr ''bg.mp4''), Input (JReadable 1), InputFPS (JNum (Fin 30)),
       OutputOptions [''-preset veryfast'', ''-crf 24'', ''-f mp4'',
                      ''-movflags frag_keyframe+empty_moov'', ''-pix_fmt yuv420p''],
       Fps (JNum (Fin 30)),
       ComplexFilter
         [FilterString ''[1:v]setpts=PTS+0/TB[out]'',
          FilterObject ''overlay''
            [(''enable'', ''between(t,0,5)''), (''x'', ''0''), (''y'', ''0'')]
            ''[0:v][out]'' ''tmp'']
         ''tmp'',
       Output 7, SingleBar,
       On ''start'', On ''end'', On ''progress'', On ''error'', Run],
      True)
   \<and> promiseAfter (job hostReady (cfgPlain\<lparr>backgroundVideo := bgZero\<rparr>)
                     [Start ''ffmpeg'', End])
       = Rejected (Error ''backgroundVideo property is not correctly set'')"
  by (simp add: job_def encoder_def typeCheck_def createDir_def silentOf_def promiseAfter_def
        isWhole_def decimal_digit digitChar_def)

subsection \<open>C2: the overlay filter graph\<close>

text \<open>
  C2. For every configuration with a readable frame stream, a string for \<^verbatim>\<open>output\<close>, an
  \<^verbatim>\<open>fps\<close> that is there, and a \<^verbatim>\<open>backgroundVideo\<close> with a string \<^verbatim>\<open>videoPath\<close> and numbers
  \<open>i\<close> for \<^verbatim>\<open>inSeconds\<close> and \<open>out\<close> for \<^verbatim>\<open>outSeconds\<close>, the command gets two inputs, the
  background video first and the frame stream second, and one filter graph of two
  stages: the string that shifts the timestamps of input 1 by \<open>i\<close>,
  \<^verbatim>\<open>[1:v]setpts=PTS+i/TB[out]\<close>, and an overlay of \<^verbatim>\<open>[0:v][out]\<close> at x = 0, y = 0 enabled by
  \<^verbatim>\<open>between(t,i,out)\<close>, whose output \<^verbatim>\<open>tmp\<close> is the output of the graph; then the command
  is run. For \<open>i = 2\<close> and \<open>out = 5\<close> the shift is \<^verbatim>\<open>setpts=PTS+2/TB\<close> and the gate is
  \<^verbatim>\<open>between(t,2,5)\<close>.
\<close>

theorem C2_overlay_filter_graph:
  assumes "frameStream cfg = JReadable s"
      and "readable h s"
      and "output' cfg = JStr p"
      and "\<not> nullish (fps cfg)"
      and "getProp (backgroundVideo cfg) ''videoPath'' = JStr videoPath"
      and "getProp (backgroundVideo cfg) ''inSeconds'' = JNum i"
      and "getProp (backgroundVideo cfg) ''outSeconds'' = JNum out"
  shows "filter isInput (fst (encoder h cfg)) = [Input (JStr videoPath), Input (JReadable s)]
         \<and> filter isComplexFilter (fst (encoder h cfg)) =
             [ComplexFilter
                [FilterString (''[1:v]setpts=PTS+'' @ numberToString (numberRepr h) i
                               @ ''/TB[out]''),
                 FilterObject ''overlay''
                   [(''enable'', ''between(t,'' @ numberToString (numberRepr h) i @ '',''
                                 @ numberToString (numberRepr h) out @ '')''),
                    (''x'', ''0''), (''y'', ''0'')]
                   ''[0:v][out]'' ''tmp'']
                ''tmp'']
         \<and> snd (encoder h cfg)
         \<and> last (fst (encoder h cfg)) = Run
         \<and> (i = Fin 2 \<and> out = Fin 5 \<longrightarrow>
              filter isComplexFilter (fst (encoder h cfg)) =
                [ComplexFilter
                   [FilterString ''[1:v]setpts=PTS+2/TB[out]'',
                    FilterObject ''overlay''
                      [(''enable'', ''between(t,2,5)''), (''x'', ''0''), (''y'', ''0'')]
                      ''[0:v][out]'' ''tmp'']
                   ''tmp''])"
proof -
  have bg: "truthy (backgroundVideo cfg)"
    using assms(5) getProp_truthy [of "backgroundVideo cfg" "''videoPath''"] by simp
  have noIn: "filter isInput (typeCheck cfg) = []"
    by (simp add: typeCheck_def)
  have noIn': "filter isInput (createDir h sl v) = []" for sl v
    by (simp add: createDir_def createDirCatch_def split: jsval.split dirStatus.split)
  have noCf: "filter isComplexFilter (typeCheck cfg) = []"
    by (simp add: typeCheck_def)
  have noCf': "filter isComplexFilter (createDir h sl v) = []" for sl v
    by (simp add: createDir_def createDirCatch_def split: jsval.split dirStatus.split)
  have ins: "filter isInput (fst (encoder h cfg)) = [Input (JStr videoPath), Input (JReadable s)]"
    using assms bg by (simp add: encoder_def Let_def noIn noIn')
  have graph: "filter isComplexFilter (fst (encoder h cfg)) =
             [ComplexFilter
                [FilterString (''[1:v]setpts=PTS+'' @ numberToString (numberRepr h) i
                               @ ''/TB[out]''),
                 FilterObject ''overlay''
                   [(''enable'', ''between(t,'' @ numberToString (numberRepr h) i @ '',''
                                 @ numberToString (numberRepr h) out @ '')''),
                    (''x'', ''0''), (''y'', ''0'')]
                   ''[0:v][out]'' ''tmp'']
                ''tmp'']"
    using assms bg by (simp add: encoder_def Let_def noCf noCf' del: numberToString.simps)
  have run: "snd (encoder h cfg)" "last (fst (encoder h cfg)) = Run"
    using assms bg by (simp_all add: encoder_def Let_def)
  have "filter isComplexFilter (fst (encoder h cfg)) =
                [ComplexFilter
                   [FilterString ''[1:v]setpts=PTS+2/TB[out]'',
                    FilterObject ''overlay''
                      [(''enable'', ''between(t,2,5)''), (''x'', ''0''), (''y'', ''0'')]
                      ''[0:v][out]'' ''tmp'']
                   ''tmp'']" if "i = Fin 2" "out = Fin 5"
    unfolding graph that numberToString_2 numberToString_5 by simp
  with ins graph run show ?thesis
    by blast
qed

text \<open>C2, at the window from 2 to 5 seconds over \<^verbatim>\<open>bg.mp4\<close>.\<close>

theorem C2_overlay_filter_graph_witness:
  "frameStream (cfgPlain\<lparr>backgroundVideo := bgWindow\<rparr>) = JReadable 1
   \<and> readable hostReady 1
   \<and> output' (cfgPlain\<lparr>backgroundVideo := bgWindow\<rparr>) = JStr ''out/v.mp4''
   \<and> \<not> nullish fps30
   \<and> filter isInput (fst (encoder hostReady (cfgPlain\<lparr>backgroundVideo := bgWindow\<rparr>)))
       = [Input (JStr ''bg.mp4''), Input (JReadable 1)]
   \<and> filter isComplexFilter (fst (encoder hostReady (cfgPlain\<lparr>backgroundVideo := bgWindow\<rparr>)))
       = [ComplexFilter
            [FilterString ''[1:v]setpts=PTS+2/TB[out]'',
             FilterObject ''overlay''
               [(''enable'', ''between(t,2,5)''), (''x'', ''0''), (''y'', ''0'')]
               ''[0:v][out]'' ''tmp'']
            ''tmp'']
   \<and> snd (encoder hostReady (cfgPlain\<lparr>backgroundVideo := bgWindow\<rparr>))
   \<and> last (fst (encoder hostReady (cfgPlain\<lparr>backgroundVideo := bgWindow\<rparr>))) = Run"
proof -
  have f: "frameStream (cfgPlain\<lparr>backgroundVideo := bgWindow\<rparr>) = JReadable 1"
    by simp
  have r: "readable hostReady 1"
    by simp
  have p: "output' (cfgPlain\<lparr>backgroundVideo := bgWindow\<rparr>) = JStr ''out/v.mp4''"
    by simp
  have n: "\<not> nullish (fps (cfgPlain\<lparr>backgroundVideo := bgWindow\<rparr>))"
    by simp
  have v: "getProp (backgroundVideo (cfgPlain\<lparr>backgroundVideo := bgWindow\<rparr>)) ''videoPath''
             = JStr ''bg.mp4''"
    by simp
  have i: "getProp (backgroundVideo (cfgPlain\<lparr>backgroundVideo := bgWindow\<rparr>)) ''inSeconds''
             = JNum (Fin 2)"
    by simp
  have out: "getProp (backgroundVideo (cfgPlain\<lparr>backgroundVideo := bgWindow\<rparr>)) ''outSeconds''
             = JNum (Fin 5)"
    by simp
  show ?thesis
    using C2_overlay_filter_graph [OF f r p n v i out]
    by (simp add: isWhole_def decimal_digit digitChar_def)
qed

subsection \<open>C3: progress forwarded in verbose mode\<close>

text \<open>
  C3, as the claim has it: every value forwarded to the progress bar lies between 0
  and 100, and a percent that is not finite is forwarded as 0. In verbose mode a raw
  percent of -5 is forwarded as -5, one of 150 as 150, and an infinite one as
  infinity.
\<close>

theorem C3_counterexample:
  "filter isBarUpdate
     (job hostReady (cfgPlain\<lparr>silent := JBool False\<rparr>)
        [Progress (Some (Fin (- 5))), Progress (Some (Fin 150)), Progress (Some PosInf)])
     = [BarUpdate (Fin (- 5)), BarUpdate (Fin 150), BarUpdate PosInf]
   \<and> \<not> inPercentRange (Fin (- 5)) \<and> \<not> inPercentRange (Fin 150) \<and> \<not> inPercentRange PosInf"
  by (simp add: job_def encoder_def typeCheck_def createDir_def silentOf_def toFixed2_def
        floor_eq_iff)

text \<open>
  C3, amended. In verbose mode every progress signal of a running job forwards
  exactly one value \<open>v\<close> to the progress bar, and \<open>v\<close> is never \<^verbatim>\<open>NaN\<close>: a percent that
  is missing, \<^verbatim>\<open>NaN\<close> or 0 is forwarded as 0; an infinite one as it is; any other as a
  multiple of a hundredth at most half a hundredth away from it. The value lies
  between 0 and 100 whenever the raw percent does. Nothing clamps it: for a raw
  percent of -0.01 or less and for one of 100.01 or more, the value forwarded lies
  outside 0 to 100.
\<close>

theorem C3_progress_forwarded:
  assumes "snd (encoder h cfg)"
      and "\<not> truthy (silentOf cfg)"
  shows "\<exists>v. job h cfg (evs @ [Progress percent]) = job h cfg evs @ [BarUpdate v]
             \<and> v \<noteq> NaN
             \<and> (case percent of
                  None \<Rightarrow> v = Fin 0
                | Some NaN \<Rightarrow> v = Fin 0
                | Some PosInf \<Rightarrow> v = PosInf
                | Some NegInf \<Rightarrow> v = NegInf
                | Some (Fin q) \<Rightarrow>
                    (\<exists>n::int. v = Fin (of_int n / 100) \<and> \<bar>of_int n / 100 - q\<bar> \<le> 1 / 200)
                    \<and> (q = 0 \<longrightarrow> v = Fin 0)
                    \<and> (0 \<le> q \<and> q \<le> 100 \<longrightarrow> inPercentRange v)
                    \<and> (q \<le> - (1 / 100) \<longrightarrow> \<not> inPercentRange v)
                    \<and> (100 + 1 / 100 \<le> q \<longrightarrow> \<not> inPercentRange v))"
proof -
  let ?v = "case percent of None \<Rightarrow> Fin 0
            | Some p \<Rightarrow> if numTruthy p then parseFloat_toFixed2 p else Fin 0"
  have step: "job h cfg (evs @ [Progress percent]) = job h cfg evs @ [BarUpdate ?v]"
    using assms by (simp add: job_def)
  have "?v \<noteq> NaN"
  proof (cases percent)
    case (Some p)
    then show ?thesis
      by (cases p) simp_all
  qed simp
  moreover have "case percent of
                  None \<Rightarrow> ?v = Fin 0
                | Some NaN \<Rightarrow> ?v = Fin 0
                | Some PosInf \<Rightarrow> ?v = PosInf
                | Some NegInf \<Rightarrow> ?v = NegInf
                | Some (Fin q) \<Rightarrow>
                    (\<exists>n::int. ?v = Fin (of_int n / 100) \<and> \<bar>of_int n / 100 - q\<bar> \<le> 1 / 200)
                    \<and> (q = 0 \<longrightarrow> ?v = Fin 0)
                    \<and> (0 \<le> q \<and> q \<le> 100 \<longrightarrow> inPercentRange ?v)
                    \<and> (q \<le> - (1 / 100) \<longrightarrow> \<not> inPercentRange ?v)
                    \<and> (100 + 1 / 100 \<le> q \<longrightarrow> \<not> inPercentRange ?v)"
  proof (cases percent)
    case None
    then show ?thesis
      by simp
  next
    case (Some p)
    show ?thesis
    proof (cases p)
      case (Fin q)
      show ?thesis
      proof (cases "q = 0")
        case True
        with Some Fin show ?thesis
          by simp
      next
        case False
        with Some Fin toFixed2_near [of q] toFixed2_range [of q]
          toFixed2_below [of q] toFixed2_above [of q]
        show ?thesis
          by (simp add: not_le)
      qed
    qed (simp_all add: Some)
  qed
  ultimately show ?thesis
    using step by blast
qed

text \<open>C3, amended, at a verbose job and a raw percent of 12.345.\<close>

theorem C3_progress_forwarded_witness:
  "snd (encoder hostReady (cfgPlain\<lparr>silent := JBool False\<rparr>))
   \<and> \<not> truthy (silentOf (cfgPlain\<lparr>silent := JBool False\<rparr>))
   \<and> (\<exists>v. job hostReady (cfgPlain\<lparr>silent := JBool False\<rparr>)
              ([Start ''ffmpeg''] @ [Progress (Some (Fin (12345 / 1000)))])
            = job hostReady (cfgPlain\<lparr>silent := JBool False\<rparr>) [Start ''ffmpeg'']
              @ [BarUpdate v]
          \<and> v \<noteq> NaN
          \<and> (\<exists>n::int. v = Fin (of_int n / 100)
                      \<and> \<bar>of_int n / 100 - (12345 / 1000 :: rat)\<bar> \<le> 1 / 200)
          \<and> inPercentRange v)"
proof -
  have l: "snd (encoder hostReady (cfgPlain\<lparr>silent := JBool False\<rparr>))"
    by (simp add: encoder_def)
  have v: "\<not> truthy (silentOf (cfgPlain\<lparr>silent := JBool False\<rparr>))"
    by (simp add: silentOf_def)
  show ?thesis
    using l v C3_progress_forwarded [OF l v, of "[Start ''ffmpeg'']" "Some (Fin (12345 / 1000))"]
    by simp
qed

subsection \<open>C4: an output directory that cannot be created\<close>

text \<open>
  C4. A job whose output directory cannot be created should be rejected with the
  directory error, after a diagnostic in verbose mode, before the sink is opened, and
  with no process started. With \<^verbatim>\<open>fs.mkdirSync\<close> throwing and \<^verbatim>\<open>silent: false\<close>, the
  diagnostic and the rejection come first, as the claim says, and then the body opens
  the write stream and runs the command all the same.
\<close>

theorem C4_directory_failure_still_encodes:
  "encoder hostNoDir (cfgPlain\<lparr>silent := JBool False\<rparr>) =
     ([ConsoleLog [''Could not create/access output directory''],
       Reject (Error ''Cannot create/access output directory''),
       CreateWriteStream (JStr ''out/v.mp4'') 7, Ffmpeg,
       Input (JReadable 1), InputFPS (JNum (Fin 30)),
       OutputOptions [''-preset veryfast'', ''-crf 24'', ''-f mp4'',
                      ''-movflags frag_keyframe+empty_moov'', ''-pix_fmt yuv420p''],
       Fps (JNum (Fin 30)), Output 7, SingleBar,
       On ''start'', On ''end'', On ''progress'', On ''error'', Run],
      True)"
  by (simp add: encoder_def typeCheck_def createDir_def createDirCatch_def silentOf_def)

subsection \<open>C5 and C6: completion and failure of the process\<close>

text \<open>
  What the two listeners do to a promise that is still pending. The completion signal
  fulfils it with the configured output and the write stream the job opened; the
  error signal with message \<open>m\<close> rejects it with an error of that message, whatever
  \<^verbatim>\<open>silent\<close> is, and the call of \<^verbatim>\<open>reject\<close> is the last thing the listener does. Either
  way the promise stays so whatever signals follow (\<open>post\<close> is any list of signals).
\<close>

lemma completion_resolves_when_pending:
  assumes "promiseAfter (job h cfg pre) = Pending"
  shows "promiseAfter (job h cfg (pre @ End # post))
           = Fulfilled (EncodeResult (output' cfg) (sink h))
         \<and> CreateWriteStream (output' cfg) (sink h) \<in> set (fst (encoder h cfg))"
proof -
  have launched: "snd (encoder h cfg)"
    using assms by (rule pending_launched)
  have "job h cfg (pre @ End # post) =
          job h cfg pre @ listener (silentOf cfg) (output' cfg) (sink h) End
          @ concat (map (listener (silentOf cfg) (output' cfg) (sink h)) post)"
    using launched by (simp add: job_append del: listener.simps)
  then have "promiseAfter (job h cfg (pre @ End # post))
               = Fulfilled (EncodeResult (output' cfg) (sink h))"
    using assms by (simp add: promiseAfter_append promiseAfter_End del: listener.simps)
  then show ?thesis
    using launched by (simp add: sink_opened)
qed

lemma error_rejects_when_pending:
  assumes "promiseAfter (job h cfg pre) = Pending"
  shows "promiseAfter (job h cfg (pre @ Failure m # post)) = Rejected (Error m)
         \<and> last (job h cfg (pre @ [Failure m])) = Reject (Error m)"
proof -
  have launched: "snd (encoder h cfg)"
    using assms by (rule pending_launched)
  have "job h cfg (pre @ Failure m # post) =
          job h cfg pre @ listener (silentOf cfg) (output' cfg) (sink h) (Failure m)
          @ concat (map (listener (silentOf cfg) (output' cfg) (sink h)) post)"
    using launched by (simp add: job_append del: listener.simps)
  then have "promiseAfter (job h cfg (pre @ Failure m # post)) = Rejected (Error m)"
    using assms by (simp add: promiseAfter_append promiseAfter_Failure del: listener.simps)
  moreover have "last (job h cfg (pre @ [Failure m])) = Reject (Error m)"
    using launched by (simp add: job_append)
  ultimately show ?thesis
    by simp
qed

text \<open>
  C5. Every job whose process signals completion should have its promise resolved,
  once, with the configured output and the write stream the job opened. At the
  configuration of C1, valid but for \<^verbatim>\<open>backgroundVideo.inSeconds = 0\<close>, \<^verbatim>\<open>typeCheck\<close> has
  rejected the promise and the process is started all the same; on its completion
  signal the listener calls \<^verbatim>\<open>resolve\<close> with that result, and the promise stays
  rejected with the validator's error.
\<close>

theorem C5_completion_after_rejection:
  "filter (\<lambda>x. isReject x \<or> isResolve x)
     (job hostReady (cfgPlain\<lparr>backgroundVideo := bgZero\<rparr>) [Start ''ffmpeg'', End]) =
     [Reject (Error ''backgroundVideo property is not correctly set''),
      Resolve (EncodeResult (JStr ''out/v.mp4'') 7)]
   \<and> promiseAfter (job hostReady (cfgPlain\<lparr>backgroundVideo := bgZero\<rparr>)
                     [Start ''ffmpeg'', End])
       = Rejected (Error ''backgroundVideo property is not correctly set'')"
  by (simp add: job_def encoder_def typeCheck_def createDir_def silentOf_def promiseAfter_def)

text \<open>
  C6. Every job whose process signals an error with message \<open>m\<close> should be rejected
  with an error whose message is \<open>m\<close>. At a configuration valid but for
  \<^verbatim>\<open>fps.input = 0\<close>, \<^verbatim>\<open>typeCheck\<close> has rejected the promise and the process is started all
  the same; on its error signal the listener calls \<^verbatim>\<open>reject\<close> with the message, and
  the promise keeps the validator's error, not \<open>m\<close>.
\<close>

theorem C6_error_after_rejection:
  "filter (\<lambda>x. isReject x \<or> isResolve x)
     (job hostReady (cfgPlain\<lparr>fps := fpsZero\<rparr>)
        [Start ''ffmpeg'', Failure ''Conversion failed!'']) =
     [Reject (Error ''fps should be an object with input and output properties''),
      Reject (Error ''Conversion failed!'')]
   \<and> promiseAfter (job hostReady (cfgPlain\<lparr>fps := fpsZero\<rparr>)
                     [Start ''ffmpeg'', Failure ''Conversion failed!''])
       = Rejected (Error ''fps should be an object with input and output properties'')"
  by (simp add: job_def encoder_def typeCheck_def createDir_def silentOf_def promiseAfter_def)

subsection \<open>C7, C8 and C10: what the validator tests\<close>

text \<open>
  C7, as the claim has it: a frame rate that is not positive is rejected. An input
  rate of -30 passes \<^verbatim>\<open>typeCheck\<close> with no call of \<^verbatim>\<open>reject\<close>, and the job is fulfilled.
\<close>

theorem C7_counterexample:
  "getProp (fps (cfgPlain\<lparr>fps := fpsNegative\<rparr>)) ''input'' = JNum (Fin (- 30))
   \<and> \<not> (0 :: rat) < - 30
   \<and> typeCheck (cfgPlain\<lparr>fps := fpsNegative\<rparr>) = []
   \<and> promiseAfter (job hostReady (cfgPlain\<lparr>fps := fpsNegative\<rparr>) [Start ''ffmpeg'', End])
       = Fulfilled (EncodeResult (JStr ''out/v.mp4'') 7)"
  by (simp add: typeCheck_def job_def encoder_def createDir_def silentOf_def promiseAfter_def)

text \<open>
  C7, amended. The validator signals the \<^verbatim>\<open>fps\<close> error exactly when \<^verbatim>\<open>fps\<close>, \<^verbatim>\<open>fps.input\<close>
  or \<^verbatim>\<open>fps.output\<close> is falsy; so it does when \<^verbatim>\<open>fps\<close> is absent, and for finite numeric
  rates exactly when one of them is 0. The sign of a rate is not tested.
\<close>

theorem C7_fps_check_is_truthiness:
  "(Reject (Error ''fps should be an object with input and output properties'')
      \<in> set (typeCheck cfg))
     = (\<not> truthy (fps cfg) \<or> \<not> truthy (getProp (fps cfg) ''input'')
        \<or> \<not> truthy (getProp (fps cfg) ''output''))
   \<and> (fps cfg = JUndefined \<longrightarrow>
        Reject (Error ''fps should be an object with input and output properties'')
          \<in> set (typeCheck cfg))
   \<and> (getProp (fps cfg) ''input'' = JNum (Fin a) \<and> getProp (fps cfg) ''output'' = JNum (Fin b) \<longrightarrow>
        (Reject (Error ''fps should be an object with input and output properties'')
           \<in> set (typeCheck cfg))
        = (a = 0 \<or> b = 0))"
proof -
  have check: "(Reject (Error ''fps should be an object with input and output properties'')
      \<in> set (typeCheck cfg))
     = (\<not> truthy (fps cfg) \<or> \<not> truthy (getProp (fps cfg) ''input'')
        \<or> \<not> truthy (getProp (fps cfg) ''output''))"
    by (simp add: typeCheck_def)
  have "truthy (fps cfg)" if "getProp (fps cfg) ''input'' = JNum (Fin a)"
    using that getProp_truthy [of "fps cfg" "''input''"] by simp
  then show ?thesis
    unfolding check by auto
qed

text \<open>C7, amended, at an input rate of 0 and at a configuration with no \<^verbatim>\<open>fps\<close>.\<close>

theorem C7_fps_check_is_truthiness_witness:
  "getProp (fps (cfgPlain\<lparr>fps := fpsZero\<rparr>)) ''input'' = JNum (Fin 0)
   \<and> getProp (fps (cfgPlain\<lparr>fps := fpsZero\<rparr>)) ''output'' = JNum (Fin 30)
   \<and> Reject (Error ''fps should be an object with input and output properties'')
        \<in> set (typeCheck (cfgPlain\<lparr>fps := fpsZero\<rparr>))
   \<and> Reject (Error ''fps should be an object with input and output properties'')
        \<in> set (typeCheck (cfgPlain\<lparr>fps := JUndefined\<rparr>))"
  using C7_fps_check_is_truthiness [of "cfgPlain\<lparr>fps := fpsZero\<rparr>" 0 30]
        C7_fps_check_is_truthiness [of "cfgPlain\<lparr>fps := JUndefined\<rparr>" 0 0]
  by simp

text \<open>
  C8, as the claim has it: a window whose \<^verbatim>\<open>outSeconds\<close> is not after its \<^verbatim>\<open>inSeconds\<close>
  is rejected. A window from 5 back to 2 passes \<^verbatim>\<open>typeCheck\<close> with no call of
  \<^verbatim>\<open>reject\<close>, and the job is fulfilled.
\<close>

theorem C8_counterexample:
  "truthy bgBackwards
   \<and> getProp bgBackwards ''inSeconds'' = JNum (Fin 5)
   \<and> getProp bgBackwards ''outSeconds'' = JNum (Fin 2)
   \<and> (2 :: rat) \<le> 5
   \<and> typeCheck (cfgPlain\<lparr>backgroundVideo := bgBackwards\<rparr>) = []
   \<and> promiseAfter (job hostReady (cfgPlain\<lparr>backgroundVideo := bgBackwards\<rparr>)
                     [Start ''ffmpeg'', End])
       = Fulfilled (EncodeResult (JStr ''out/v.mp4'') 7)"
  by (simp add: typeCheck_def job_def encoder_def createDir_def silentOf_def promiseAfter_def)

text \<open>
  C8, amended. When \<^verbatim>\<open>backgroundVideo\<close> is there, the validator signals the
  \<^verbatim>\<open>backgroundVideo\<close> error exactly when \<^verbatim>\<open>inSeconds\<close>, \<^verbatim>\<open>outSeconds\<close> or \<^verbatim>\<open>videoPath\<close> is
  falsy: for finite numeric seconds and a string path, exactly when one of the seconds
  is 0 or the path is empty. The order of the two seconds is not tested.
\<close>

theorem C8_overlay_check_is_truthiness:
  assumes "truthy (backgroundVideo cfg)"
  shows "(Reject (Error ''backgroundVideo property is not correctly set'') \<in> set (typeCheck cfg))
           = (\<not> truthy (getProp (backgroundVideo cfg) ''inSeconds'')
              \<or> \<not> truthy (getProp (backgroundVideo cfg) ''outSeconds'')
              \<or> \<not> truthy (getProp (backgroundVideo cfg) ''videoPath''))
         \<and> (getProp (backgroundVideo cfg) ''inSeconds'' = JNum (Fin i)
              \<and> getProp (backgroundVideo cfg) ''outSeconds'' = JNum (Fin out)
              \<and> getProp (backgroundVideo cfg) ''videoPath'' = JStr p \<longrightarrow>
             (Reject (Error ''backgroundVideo property is not correctly set'')
                \<in> set (typeCheck cfg))
             = (i = 0 \<or> out = 0 \<or> p = []))"
proof -
  have check: "(Reject (Error ''backgroundVideo property is not correctly set'')
                  \<in> set (typeCheck cfg))
           = (\<not> truthy (getProp (backgroundVideo cfg) ''inSeconds'')
              \<or> \<not> truthy (getProp (backgroundVideo cfg) ''outSeconds'')
              \<or> \<not> truthy (getProp (backgroundVideo cfg) ''videoPath''))"
    using assms by (simp add: typeCheck_def)
  show ?thesis
    unfolding check by auto
qed

text \<open>C8, amended, at a window that starts at 0.\<close>

theorem C8_overlay_check_is_truthiness_witness:
  "truthy (backgroundVideo (cfgPlain\<lparr>backgroundVideo := bgZero\<rparr>))
   \<and> getProp bgZero ''inSeconds'' = JNum (Fin 0)
   \<and> getProp bgZero ''outSeconds'' = JNum (Fin 5)
   \<and> getProp bgZero ''videoPath'' = JStr ''bg.mp4''
   \<and> Reject (Error ''backgroundVideo property is not correctly set'')
        \<in> set (typeCheck (cfgPlain\<lparr>backgroundVideo := bgZero\<rparr>))"
proof -
  have t: "truthy (backgroundVideo (cfgPlain\<lparr>backgroundVideo := bgZero\<rparr>))"
    by simp
  show ?thesis
    using t C8_overlay_check_is_truthiness [OF t, of 0 5 "''bg.mp4''"]
    by simp
qed

subsection \<open>C9: how often the callbacks fire\<close>

text \<open>
  C9. Resolve or reject should fire once per job, and \<^verbatim>\<open>reject\<close> at most once even
  when several checks fail. With an input rate of 0 and an \<^verbatim>\<open>inSeconds\<close> of 0,
  \<^verbatim>\<open>typeCheck\<close> calls \<^verbatim>\<open>reject\<close> twice, and when the process that was started all the
  same completes, \<^verbatim>\<open>resolve\<close> is called as well.
\<close>

theorem C9_callbacks_fire_repeatedly:
  "filter (\<lambda>x. isReject x \<or> isResolve x)
     (job hostReady (cfgPlain\<lparr>fps := fpsZero, backgroundVideo := bgZero\<rparr>)
        [Start ''ffmpeg'', End]) =
     [Reject (Error ''fps should be an object with input and output properties''),
      Reject (Error ''backgroundVideo property is not correctly set''),
      Resolve (EncodeResult (JStr ''out/v.mp4'') 7)]"
  by (simp add: job_def encoder_def typeCheck_def createDir_def silentOf_def)

subsection \<open>C10: a zero offset\<close>

text \<open>
  C10. When \<^verbatim>\<open>backgroundVideo\<close> is there and its \<^verbatim>\<open>inSeconds\<close> is the number 0, the
  validator calls \<^verbatim>\<open>reject\<close> with "backgroundVideo property is not correctly set": the
  check is by truthiness, and 0 is falsy. Such a configuration is never accepted.
\<close>

theorem C10_zero_offset_rejected:
  assumes "truthy (backgroundVideo cfg)"
      and "getProp (backgroundVideo cfg) ''inSeconds'' = JNum (Fin 0)"
  shows "Reject (Error ''backgroundVideo property is not correctly set'') \<in> set (typeCheck cfg)
         \<and> typeCheck cfg \<noteq> []"
  using assms by (simp add: typeCheck_def)

text \<open>C10, at a configuration that is valid but for the zero offset.\<close>

theorem C10_zero_offset_rejected_witness:
  "truthy bgZero \<and> getProp bgZero ''inSeconds'' = JNum (Fin 0)
   \<and> Reject (Error ''backgroundVideo property is not correctly set'')
        \<in> set (typeCheck (cfgPlain\<lparr>backgroundVideo := bgZero\<rparr>))
   \<and> typeCheck (cfgPlain\<lparr>backgroundVideo := bgZero\<rparr>) \<noteq> []"
  using C10_zero_offset_rejected [of "cfgPlain\<lparr>backgroundVideo := bgZero\<rparr>"]
  by simp

end
